theory Spec2Isabelle
  imports Complex_Main "HOL-Library.Stream"
begin

section \<open>Floating-point values\<close>

text \<open>
  The numbers of \<^verbatim>\<open>hierarchy_likelihood.py\<close> are IEEE-754 doubles (Python floats and
  \<^verbatim>\<open>numpy.float64\<close>). A double is modelled as a finite real, the negative zero, or one
  of the three special values: \<open>Fin 0\<close> is the zero whose sign bit is clear and
  \<open>NegZero\<close> the zero whose sign bit is set. The result of an arithmetic operation on
  finite values is passed through \<open>np_round_to\<close>, which writes out the two range effects
  of the format: a result at or beyond the overflow threshold becomes an infinity, and a
  result of magnitude at most half the least subnormal becomes a zero, of the sign the
  operation gives it. Rounding of the mantissa is not modelled.
\<close>

datatype npfloat = Fin real | NegZero | PInf | NInf | NaN

definition dbl_overflow :: real where
  "dbl_overflow = 2 ^ 1024 - 2 ^ 970"

definition dbl_underflow :: real where
  "dbl_underflow = 1 / 2 ^ 1075"

text \<open>The least positive (subnormal) double.\<close>

definition dbl_min_subnormal :: real where
  "dbl_min_subnormal = 1 / 2 ^ 1074"

text \<open>\<open>negative\<close> is the sign of the result, which a zero result keeps.\<close>

definition np_round_to :: "bool \<Rightarrow> real \<Rightarrow> npfloat" where
  "np_round_to negative x =
     (if dbl_overflow \<le> x then PInf
      else if x \<le> - dbl_overflow then NInf
      else if \<bar>x\<bar> \<le> dbl_underflow then (if negative then NegZero else Fin 0)
      else Fin x)"

definition np_round :: "real \<Rightarrow> npfloat" where
  "np_round x = np_round_to (x < 0) x"

text \<open>\<^verbatim>\<open>np.signbit\<close>; the sign bit of a NaN is left out (it is never asked for).\<close>

fun np_signbit :: "npfloat \<Rightarrow> bool" where
  "np_signbit (Fin x) = (x < 0)"
| "np_signbit NegZero = True"
| "np_signbit NInf = True"
| "np_signbit _ = False"

text \<open>
  A sum that is exactly zero is the positive zero, unless both terms are the negative
  zero.
\<close>

fun fl_add :: "npfloat \<Rightarrow> npfloat \<Rightarrow> npfloat" where
  "fl_add NaN _ = NaN"
| "fl_add _ NaN = NaN"
| "fl_add (Fin x) (Fin y) = np_round (x + y)"
| "fl_add (Fin x) NegZero = np_round x"
| "fl_add NegZero (Fin y) = np_round y"
| "fl_add NegZero NegZero = NegZero"
| "fl_add PInf NInf = NaN"
| "fl_add NInf PInf = NaN"
| "fl_add PInf _ = PInf"
| "fl_add _ PInf = PInf"
| "fl_add NInf _ = NInf"
| "fl_add _ NInf = NInf"

text \<open>
  The sign of a product or quotient is the exclusive or of the signs of its operands. A
  zero times an infinity is NaN.
\<close>

definition signed_inf :: "bool \<Rightarrow> npfloat" where
  "signed_inf negative = (if negative then NInf else PInf)"

definition signed_zero :: "bool \<Rightarrow> npfloat" where
  "signed_zero negative = (if negative then NegZero else Fin 0)"

fun fl_mul :: "npfloat \<Rightarrow> npfloat \<Rightarrow> npfloat" where
  "fl_mul NaN _ = NaN"
| "fl_mul _ NaN = NaN"
| "fl_mul (Fin x) (Fin y) = np_round_to ((x < 0) \<noteq> (y < 0)) (x * y)"
| "fl_mul (Fin x) NegZero = signed_zero (\<not> x < 0)"
| "fl_mul NegZero (Fin y) = signed_zero (\<not> y < 0)"
| "fl_mul NegZero NegZero = Fin 0"
| "fl_mul (Fin x) PInf = (if x = 0 then NaN else signed_inf (x < 0))"
| "fl_mul (Fin x) NInf = (if x = 0 then NaN else signed_inf (\<not> x < 0))"
| "fl_mul PInf (Fin y) = (if y = 0 then NaN else signed_inf (y < 0))"
| "fl_mul NInf (Fin y) = (if y = 0 then NaN else signed_inf (\<not> y < 0))"
| "fl_mul NegZero _ = NaN"
| "fl_mul _ NegZero = NaN"
| "fl_mul PInf PInf = PInf"
| "fl_mul PInf NInf = NInf"
| "fl_mul NInf PInf = NInf"
| "fl_mul NInf NInf = PInf"

text \<open>
  Division of \<^verbatim>\<open>numpy.float64\<close> values never raises: a zero divisor gives an infinity
  or NaN (with a warning).
\<close>

fun fl_div :: "npfloat \<Rightarrow> npfloat \<Rightarrow> npfloat" where
  "fl_div NaN _ = NaN"
| "fl_div _ NaN = NaN"
| "fl_div (Fin x) (Fin y) =
     (if y = 0 then (if x = 0 then NaN else signed_inf (x < 0))
      else np_round_to ((x < 0) \<noteq> (y < 0)) (x / y))"
| "fl_div (Fin x) NegZero = (if x = 0 then NaN else signed_inf (\<not> x < 0))"
| "fl_div NegZero (Fin y) = (if y = 0 then NaN else signed_zero (\<not> y < 0))"
| "fl_div NegZero NegZero = NaN"
| "fl_div (Fin x) PInf = signed_zero (x < 0)"
| "fl_div (Fin x) NInf = signed_zero (\<not> x < 0)"
| "fl_div NegZero PInf = NegZero"
| "fl_div NegZero NInf = Fin 0"
| "fl_div PInf (Fin y) = signed_inf (y < 0)"
| "fl_div PInf NegZero = NInf"
| "fl_div NInf (Fin y) = signed_inf (\<not> y < 0)"
| "fl_div NInf NegZero = PInf"
| "fl_div _ _ = NaN"

text \<open>
  Comparisons: every comparison with NaN is false, and the two zeros compare equal.
\<close>

fun fl_less :: "npfloat \<Rightarrow> npfloat \<Rightarrow> bool" where
  "fl_less NaN _ = False"
| "fl_less _ NaN = False"
| "fl_less (Fin x) (Fin y) = (x < y)"
| "fl_less (Fin x) NegZero = (x < 0)"
| "fl_less NegZero (Fin y) = (0 < y)"
| "fl_less NegZero NegZero = False"
| "fl_less _ NInf = False"
| "fl_less PInf _ = False"
| "fl_less _ _ = True"

fun fl_eq :: "npfloat \<Rightarrow> npfloat \<Rightarrow> bool" where
  "fl_eq NaN _ = False"
| "fl_eq _ NaN = False"
| "fl_eq (Fin x) NegZero = (x = 0)"
| "fl_eq NegZero (Fin y) = (y = 0)"
| "fl_eq a b = (a = b)"

definition fl_le :: "npfloat \<Rightarrow> npfloat \<Rightarrow> bool" where
  "fl_le a b = (fl_less a b \<or> fl_eq a b)"

text \<open>\<^verbatim>\<open>np.isfinite\<close>, \<^verbatim>\<open>np.exp\<close> and \<^verbatim>\<open>np.log\<close>.\<close>

fun np_isfinite :: "npfloat \<Rightarrow> bool" where
  "np_isfinite (Fin _) = True"
| "np_isfinite NegZero = True"
| "np_isfinite _ = False"

fun np_exp :: "npfloat \<Rightarrow> npfloat" where
  "np_exp (Fin x) = np_round (exp x)"
| "np_exp NegZero = Fin 1"
| "np_exp PInf = PInf"
| "np_exp NInf = Fin 0"
| "np_exp NaN = NaN"

fun np_log :: "npfloat \<Rightarrow> npfloat" where
  "np_log (Fin x) = (if 0 < x then np_round (ln x) else if x = 0 then NInf else NaN)"
| "np_log NegZero = NInf"
| "np_log PInf = PInf"
| "np_log NInf = NaN"
| "np_log NaN = NaN"

section \<open>Errors, keyword dictionaries and the random source\<close>

datatype error = TypeError | ValueError | AttributeError | AssertionError

text \<open>
  A keyword dictionary (\<^verbatim>\<open>kwargs_lens\<close>, \<^verbatim>\<open>kwargs_kin\<close>) is an association list read
  through \<open>map_of\<close>.
\<close>

type_synonym kwargs = "(string \<times> npfloat) list"

definition dict_get :: "kwargs \<Rightarrow> string \<Rightarrow> npfloat \<Rightarrow> npfloat" where
  "dict_get kw k d = (case map_of kw k of None \<Rightarrow> d | Some v \<Rightarrow> v)"

text \<open>\<^verbatim>\<open>d.pop(k, None)\<close>: the value (or None) and the dictionary without the key.\<close>

definition dict_pop :: "kwargs \<Rightarrow> string \<Rightarrow> npfloat option \<times> kwargs" where
  "dict_pop kw k = (map_of kw k, filter (\<lambda>p. fst p \<noteq> k) kw)"

text \<open>
  The process-wide random state of \<^verbatim>\<open>numpy.random\<close> is a tape of variates, read from
  its head. \<^verbatim>\<open>np.random.normal(loc, scale)\<close> refuses a scale whose sign bit is set
  (the negative zero included) and otherwise returns \<open>loc + scale * z\<close> for the next
  standard normal variate \<open>z\<close>.
\<close>

type_synonym rng = "real stream"

definition np_random_normal :: "npfloat \<Rightarrow> npfloat \<Rightarrow> rng \<Rightarrow> error + (npfloat \<times> rng)" where
  "np_random_normal loc scale g =
     (if np_signbit scale then Inl ValueError
      else Inr (fl_add loc (fl_mul scale (Fin (shd g))), stl g))"

section \<open>The lens likelihood object\<close>

text \<open>
  The attributes that \<^verbatim>\<open>LensLikelihood.__init__\<close> sets. \<open>kappa_dist\<close> is None when the
  attribute \<^verbatim>\<open>_kappa_dist\<close> was never assigned. A sampler draws one convergence value
  from the random source.
\<close>

type_synonym sampler = "rng \<Rightarrow> npfloat \<times> rng"

record lens =
  z_lens :: npfloat
  z_source :: npfloat
  num_distribution_draws :: int
  kappa_ext_bias :: bool
  mst_ifu :: bool
  draw_kappa :: bool
  kappa_dist :: "sampler option"

text \<open>
  The methods inherited from \<^verbatim>\<open>TransformedCosmography\<close>, \<^verbatim>\<open>AnisotropyScalingIFU\<close> and
  \<^verbatim>\<open>LensLikelihoodBase\<close> are parameters: the displacement of the predicted distances, the
  anisotropy draw (which reads the random source and may raise), the anisotropy scaling
  and the likelihood kernel.
\<close>

record ('a, 's) inherited =
  displace_prediction ::
    "npfloat \<Rightarrow> npfloat \<Rightarrow> npfloat \<Rightarrow> npfloat \<Rightarrow> npfloat \<Rightarrow> npfloat \<times> npfloat"
  draw_anisotropy :: "kwargs \<Rightarrow> rng \<Rightarrow> error + ('a \<times> rng)"
  ani_scaling :: "'a \<Rightarrow> 's"
  log_likelihood :: "npfloat \<Rightarrow> npfloat \<Rightarrow> 's \<Rightarrow> npfloat option \<Rightarrow> npfloat"

text \<open>
  \<^verbatim>\<open>__init__\<close>, lines 43 to 50. The constructor of the convergence sampler,
  \<^verbatim>\<open>PDFSampling(bin_edges, pdf_array)\<close>, is a parameter; it may refuse its arguments.
\<close>

definition LensLikelihood_init ::
  "(npfloat list \<Rightarrow> npfloat list \<Rightarrow> error + sampler) \<Rightarrow> npfloat \<Rightarrow> npfloat \<Rightarrow> int \<Rightarrow> bool \<Rightarrow>
   npfloat list option \<Rightarrow> npfloat list option \<Rightarrow> bool \<Rightarrow> error + lens" where
  "LensLikelihood_init PDFSampling zl zs n bias kappa_pdf kappa_bin_edges mst =
     (case (kappa_pdf, kappa_bin_edges) of
        (Some pdf, Some edges) \<Rightarrow>
          (case PDFSampling edges pdf of
             Inl e \<Rightarrow> Inl e
           | Inr s \<Rightarrow>
               Inr \<lparr>z_lens = zl, z_source = zs, num_distribution_draws = n,
                    kappa_ext_bias = bias, mst_ifu = mst, draw_kappa = True,
                    kappa_dist = Some s\<rparr>)
      | _ \<Rightarrow>
          Inr \<lparr>z_lens = zl, z_source = zs, num_distribution_draws = n,
               kappa_ext_bias = bias, mst_ifu = mst, draw_kappa = False,
               kappa_dist = None\<rparr>)"

subsection \<open>\<^verbatim>\<open>angular_diameter_distances\<close>\<close>

record cosmology =
  angular_diameter_distance :: "npfloat \<Rightarrow> npfloat"
  angular_diameter_distance_z1z2 :: "npfloat \<Rightarrow> npfloat \<Rightarrow> npfloat"

definition angular_diameter_distances :: "lens \<Rightarrow> cosmology \<Rightarrow> npfloat \<times> npfloat" where
  "angular_diameter_distances L cosmo =
     (let dd = angular_diameter_distance cosmo (z_lens L);
          ds = angular_diameter_distance cosmo (z_source L);
          dds = angular_diameter_distance_z1z2 cosmo (z_lens L) (z_source L);
          ddt = fl_div (fl_mul (fl_mul (fl_add (Fin 1) (z_lens L)) dd) ds) dds
      in (ddt, dd))"

subsection \<open>\<^verbatim>\<open>check_dist\<close>\<close>

definition check_dist :: "lens \<Rightarrow> kwargs \<Rightarrow> kwargs \<Rightarrow> bool" where
  "check_dist L kwargs_lens kwargs_kin =
     (let lambda_mst_sigma = dict_get kwargs_lens ''lambda_mst_sigma'' (Fin 0);
          kappa_ext_sigma = dict_get kwargs_lens ''kappa_ext_sigma'' (Fin 0);
          a_ani_sigma = dict_get kwargs_kin ''a_ani_sigma'' (Fin 0);
          beta_inf_sigma = dict_get kwargs_kin ''beta_inf_sigma'' (Fin 0)
      in if fl_eq a_ani_sigma (Fin 0) \<and> fl_eq lambda_mst_sigma (Fin 0) \<and>
            fl_eq kappa_ext_sigma (Fin 0) \<and> fl_eq beta_inf_sigma (Fin 0)
         then (if draw_kappa L = False then True else False)
         else False)"

subsection \<open>\<^verbatim>\<open>draw_lens\<close>\<close>

definition draw_lens ::
  "lens \<Rightarrow> npfloat \<Rightarrow> npfloat \<Rightarrow> npfloat \<Rightarrow> npfloat \<Rightarrow> npfloat \<Rightarrow> npfloat \<Rightarrow> npfloat \<Rightarrow> rng \<Rightarrow>
   error + ((npfloat \<times> npfloat \<times> npfloat) \<times> rng)" where
  "draw_lens L lambda_mst lambda_mst_sigma kappa_ext kappa_ext_sigma gamma_ppn lambda_ifu
     lambda_ifu_sigma g =
     (case (if mst_ifu L then np_random_normal lambda_ifu lambda_ifu_sigma g
            else np_random_normal lambda_mst lambda_mst_sigma g) of
        Inl e \<Rightarrow> Inl e
      | Inr (lambda_mst_draw, g1) \<Rightarrow>
          if draw_kappa L then
            (case kappa_dist L of
               None \<Rightarrow> Inl AttributeError
             | Some draw_one \<Rightarrow>
                 (case draw_one g1 of
                    (kappa_ext_draw, g2) \<Rightarrow> Inr ((lambda_mst_draw, kappa_ext_draw, gamma_ppn), g2)))
          else if kappa_ext_bias L then
            (case np_random_normal kappa_ext kappa_ext_sigma g1 of
               Inl e \<Rightarrow> Inl e
             | Inr (kappa_ext_draw, g2) \<Rightarrow>
                 Inr ((lambda_mst_draw, kappa_ext_draw, gamma_ppn), g2))
          else Inr ((lambda_mst_draw, Fin 0, gamma_ppn), g1))"

text \<open>
  The call of \<^verbatim>\<open>self.draw_lens\<close> with the unpacked \<^verbatim>\<open>kwargs_lens\<close>: a key that is no parameter of
  \<^verbatim>\<open>draw_lens\<close> is a TypeError; an absent key takes the default of the signature.
\<close>

definition draw_lens_params :: "string list" where
  "draw_lens_params = [''lambda_mst'', ''lambda_mst_sigma'', ''kappa_ext'', ''kappa_ext_sigma'',
     ''gamma_ppn'', ''lambda_ifu'', ''lambda_ifu_sigma'']"

definition draw_lens_kwargs ::
  "lens \<Rightarrow> kwargs \<Rightarrow> rng \<Rightarrow> error + ((npfloat \<times> npfloat \<times> npfloat) \<times> rng)" where
  "draw_lens_kwargs L kw g =
     (if \<exists>k \<in> set (map fst kw). k \<notin> set draw_lens_params then Inl TypeError
      else draw_lens L (dict_get kw ''lambda_mst'' (Fin 1)) (dict_get kw ''lambda_mst_sigma'' (Fin 0))
             (dict_get kw ''kappa_ext'' (Fin 0)) (dict_get kw ''kappa_ext_sigma'' (Fin 0))
             (dict_get kw ''gamma_ppn'' (Fin 1)) (dict_get kw ''lambda_ifu'' (Fin 1))
             (dict_get kw ''lambda_ifu_sigma'' (Fin 0)) g)"

subsection \<open>\<^verbatim>\<open>hyper_param_likelihood\<close>\<close>

text \<open>
  The sharp branch (lines 81 to 87): one draw, one displacement, one anisotropy draw, one
  kernel evaluation, whose value is returned as it is.
\<close>

definition sharp_path ::
  "('a, 's) inherited \<Rightarrow> lens \<Rightarrow> npfloat \<Rightarrow> npfloat \<Rightarrow> kwargs \<Rightarrow> kwargs \<Rightarrow> npfloat option \<Rightarrow> rng \<Rightarrow>
   error + (npfloat \<times> rng)" where
  "sharp_path B L ddt dd kwargs_lens kwargs_kin sigma_v_sys_error g =
     (case draw_lens_kwargs L kwargs_lens g of
        Inl e \<Rightarrow> Inl e
      | Inr ((lambda_mst, kappa_ext, gamma_ppn), g1) \<Rightarrow>
          (case displace_prediction B ddt dd gamma_ppn lambda_mst kappa_ext of
             (ddt', dd') \<Rightarrow>
               (case draw_anisotropy B kwargs_kin g1 of
                  Inl e \<Rightarrow> Inl e
                | Inr (aniso_param_array, g2) \<Rightarrow>
                    let aniso_scaling = ani_scaling B aniso_param_array;
                        lnlog = log_likelihood B ddt' dd' aniso_scaling sigma_v_sys_error
                    in Inr (lnlog, g2))))"

text \<open>The body of the Monte Carlo loop up to the kernel evaluation (lines 91 to 97).\<close>

definition mc_draw ::
  "('a, 's) inherited \<Rightarrow> lens \<Rightarrow> npfloat \<Rightarrow> npfloat \<Rightarrow> kwargs \<Rightarrow> kwargs \<Rightarrow> npfloat option \<Rightarrow> rng \<Rightarrow>
   error + (npfloat \<times> rng)" where
  "mc_draw B L ddt dd kwargs_lens kwargs_kin sigma_v_sys_error g =
     (case draw_lens_kwargs L kwargs_lens g of
        Inl e \<Rightarrow> Inl e
      | Inr ((lambda_mst_draw, kappa_ext_draw, gamma_ppn), g1) \<Rightarrow>
          (case draw_anisotropy B kwargs_kin g1 of
             Inl e \<Rightarrow> Inl e
           | Inr (aniso_param_draw, g2) \<Rightarrow>
               let aniso_scaling = ani_scaling B aniso_param_draw
               in (case displace_prediction B ddt dd gamma_ppn lambda_mst_draw kappa_ext_draw of
                     (ddt', dd') \<Rightarrow>
                       Inr (log_likelihood B ddt' dd' aniso_scaling sigma_v_sys_error, g2))))"

text \<open>
  The loop \<^verbatim>\<open>for i in range(n)\<close> (lines 90 to 100) with its accumulator
  \<^verbatim>\<open>likelihood\<close>.
\<close>

fun mc_loop ::
  "('a, 's) inherited \<Rightarrow> lens \<Rightarrow> npfloat \<Rightarrow> npfloat \<Rightarrow> kwargs \<Rightarrow> kwargs \<Rightarrow> npfloat option \<Rightarrow> nat \<Rightarrow>
   npfloat \<Rightarrow> rng \<Rightarrow> error + (npfloat \<times> rng)" where
  "mc_loop B L ddt dd kwargs_lens kwargs_kin sigma_v_sys_error 0 likelihood g =
     Inr (likelihood, g)"
| "mc_loop B L ddt dd kwargs_lens kwargs_kin sigma_v_sys_error (Suc n) likelihood g =
     (case mc_draw B L ddt dd kwargs_lens kwargs_kin sigma_v_sys_error g of
        Inl e \<Rightarrow> Inl e
      | Inr (logl, g') \<Rightarrow>
          let exp_logl = np_exp logl
          in mc_loop B L ddt dd kwargs_lens kwargs_kin sigma_v_sys_error n
               (if np_isfinite exp_logl \<and> fl_less (Fin 0) exp_logl
                then fl_add likelihood exp_logl else likelihood) g')"

text \<open>The Monte Carlo branch (lines 89 to 103).\<close>

definition monte_carlo_path ::
  "('a, 's) inherited \<Rightarrow> lens \<Rightarrow> npfloat \<Rightarrow> npfloat \<Rightarrow> kwargs \<Rightarrow> kwargs \<Rightarrow> npfloat option \<Rightarrow> rng \<Rightarrow>
   error + (npfloat \<times> rng)" where
  "monte_carlo_path B L ddt dd kwargs_lens kwargs_kin sigma_v_sys_error g =
     (case mc_loop B L ddt dd kwargs_lens kwargs_kin sigma_v_sys_error
             (nat (num_distribution_draws L)) (Fin 0) g of
        Inl e \<Rightarrow> Inl e
      | Inr (likelihood, g') \<Rightarrow>
          if fl_le likelihood (Fin 0) then Inr (NInf, g')
          else Inr (np_log (fl_div likelihood (Fin (of_int (num_distribution_draws L)))), g'))"

text \<open>
  \<^verbatim>\<open>hyper_param_likelihood\<close> returns the outcome (an error, or the log-likelihood and
  the random source after the call) together with the caller's \<^verbatim>\<open>kwargs_kin\<close>, which
  the call changes in place.
\<close>

definition hyper_param_likelihood ::
  "('a, 's) inherited \<Rightarrow> lens \<Rightarrow> npfloat \<Rightarrow> npfloat \<Rightarrow> kwargs \<Rightarrow> kwargs \<Rightarrow> rng \<Rightarrow>
   (error + (npfloat \<times> rng)) \<times> kwargs" where
  "hyper_param_likelihood B L ddt dd kwargs_lens kwargs_kin g =
     (case dict_pop kwargs_kin ''sigma_v_sys_error'' of
        (sigma_v_sys_error, kwargs_kin') \<Rightarrow>
          (if check_dist L kwargs_lens kwargs_kin'
           then sharp_path B L ddt dd kwargs_lens kwargs_kin' sigma_v_sys_error g
           else monte_carlo_path B L ddt dd kwargs_lens kwargs_kin' sigma_v_sys_error g,
           kwargs_kin'))"

section \<open>The specification's vocabulary\<close>

text \<open>
  The definitions of this section follow the words of the specification; the theorems
  compare them with the code above.
\<close>

text \<open>An exponentiated per-draw likelihood is accepted when it is finite and strictly positive.\<close>

definition accepted :: "npfloat \<Rightarrow> bool" where
  "accepted e = (np_isfinite e \<and> fl_less (Fin 0) e)"

text \<open>The running sum over the accepted exponentiated values, in the order of the draws.\<close>

definition mc_sum :: "npfloat list \<Rightarrow> npfloat" where
  "mc_sum logls = foldl fl_add (Fin 0) (filter accepted (map np_exp logls))"

text \<open>The estimate: negative infinity for a sum that is not positive, else \<open>log (sum / N)\<close>.\<close>

definition mc_estimate :: "int \<Rightarrow> npfloat list \<Rightarrow> npfloat" where
  "mc_estimate N logls =
     (if fl_le (mc_sum logls) (Fin 0) then NInf
      else np_log (fl_div (mc_sum logls) (Fin (of_int N))))"

text \<open>The per-draw log-likelihoods of \<open>n\<close> successive draws.\<close>

fun mc_logls ::
  "('a, 's) inherited \<Rightarrow> lens \<Rightarrow> npfloat \<Rightarrow> npfloat \<Rightarrow> kwargs \<Rightarrow> kwargs \<Rightarrow> npfloat option \<Rightarrow> nat \<Rightarrow>
   rng \<Rightarrow> error + (npfloat list \<times> rng)" where
  "mc_logls B L ddt dd kwargs_lens kwargs_kin sigma_v_sys_error 0 g = Inr ([], g)"
| "mc_logls B L ddt dd kwargs_lens kwargs_kin sigma_v_sys_error (Suc n) g =
     (case mc_draw B L ddt dd kwargs_lens kwargs_kin sigma_v_sys_error g of
        Inl e \<Rightarrow> Inl e
      | Inr (logl, g') \<Rightarrow>
          (case mc_logls B L ddt dd kwargs_lens kwargs_kin sigma_v_sys_error n g' of
             Inl e \<Rightarrow> Inl e
           | Inr (logls, g'') \<Rightarrow> Inr (logl # logls, g'')))"

text \<open>
  A spread is zero when its key is absent or its value is exactly zero (of either sign).
\<close>

definition sigma_is_zero :: "kwargs \<Rightarrow> string \<Rightarrow> bool" where
  "sigma_is_zero kw k =
     (case map_of kw k of None \<Rightarrow> True | Some v \<Rightarrow> v = Fin 0 \<or> v = NegZero)"

text \<open>The draw of the mass-sheet factor (lines 146 to 149).\<close>

definition lambda_draw ::
  "lens \<Rightarrow> npfloat \<Rightarrow> npfloat \<Rightarrow> npfloat \<Rightarrow> npfloat \<Rightarrow> rng \<Rightarrow> error + (npfloat \<times> rng)" where
  "lambda_draw L lambda_mst lambda_mst_sigma lambda_ifu lambda_ifu_sigma g =
     (if mst_ifu L then np_random_normal lambda_ifu lambda_ifu_sigma g
      else np_random_normal lambda_mst lambda_mst_sigma g)"

section \<open>Concrete objects\<close>

text \<open>
  A lens without convergence sampler, and stand-ins for the inherited methods: the
  displacement scales the time-delay distance by the drawn mass-sheet factor, the
  anisotropy draw reads nothing, and the kernel returns \<open>good\<close> where the displaced
  time-delay distance is 1 and \<open>bad\<close> elsewhere.
\<close>

definition ex_lens :: "int \<Rightarrow> bool \<Rightarrow> bool \<Rightarrow> lens" where
  "ex_lens n bias mst =
     \<lparr>z_lens = Fin (1 / 2), z_source = Fin 2, num_distribution_draws = n,
      kappa_ext_bias = bias, mst_ifu = mst, draw_kappa = False, kappa_dist = None\<rparr>"

text \<open>The random source whose every variate is \<open>x\<close>.\<close>

definition const_tape :: "real \<Rightarrow> rng" where
  "const_tape x = sconst x"

definition ex_sampler :: sampler where
  "ex_sampler g = (Fin (shd g), stl g)"

definition ex_pdf_lens :: lens where
  "ex_pdf_lens = (ex_lens 1 True False)\<lparr>draw_kappa := True, kappa_dist := Some ex_sampler\<rparr>"

definition ex_inherited :: "npfloat \<Rightarrow> npfloat \<Rightarrow> (unit, unit) inherited" where
  "ex_inherited good bad =
     \<lparr>displace_prediction = (\<lambda>ddt dd gamma_ppn lambda_mst kappa_ext. (fl_mul ddt lambda_mst, dd)),
      draw_anisotropy = (\<lambda>kw g. Inr ((), g)),
      ani_scaling = (\<lambda>a. ()),
      log_likelihood = (\<lambda>ddt dd s sv. if ddt = Fin 1 then good else bad)\<rparr>"

definition ex_cosmology :: cosmology where
  "ex_cosmology =
     \<lparr>angular_diameter_distance = (\<lambda>z. fl_div z (fl_add (Fin 1) z)),
      angular_diameter_distance_z1z2 = (\<lambda>z1 z2. Fin 1)\<rparr>"

section \<open>Auxiliary facts\<close>

subsection \<open>Rounding of small values\<close>

lemma np_round_to_in_range:
  "1 / 2 ^ 1075 < \<bar>x\<bar> \<Longrightarrow> \<bar>x\<bar> < 2 ^ 1023 \<Longrightarrow> np_round_to negative x = Fin x"
  by (auto simp: np_round_to_def dbl_overflow_def dbl_underflow_def)

lemma np_round_in_range:
  "1 / 2 ^ 1075 < \<bar>x\<bar> \<Longrightarrow> \<bar>x\<bar> < 2 ^ 1023 \<Longrightarrow> np_round x = Fin x"
  by (simp add: np_round_def np_round_to_in_range)

lemma np_round_to_0: "np_round_to False 0 = Fin 0"
  by (simp add: np_round_to_def dbl_overflow_def dbl_underflow_def)

lemma np_round_0: "np_round 0 = Fin 0"
  by (simp add: np_round_def np_round_to_0)

lemma np_round_1: "np_round 1 = Fin 1"
  by (rule np_round_in_range) simp_all

lemma np_round_2: "np_round 2 = Fin 2"
  by (rule np_round_in_range) simp_all

lemma np_round_half: "np_round (1 / 2) = Fin (1 / 2)"
  by (rule np_round_in_range) simp_all

lemma np_round_to_zero: "np_round_to negative 0 = signed_zero negative"
  by (simp add: np_round_to_def signed_zero_def dbl_overflow_def dbl_underflow_def)

lemma np_round_to_1: "np_round_to negative 1 = Fin 1"
  by (rule np_round_to_in_range) simp_all

lemma np_round_to_2: "np_round_to negative 2 = Fin 2"
  by (rule np_round_to_in_range) simp_all

lemma np_round_to_half: "np_round_to negative (1 / 2) = Fin (1 / 2)"
  by (rule np_round_to_in_range) simp_all

lemma fl_add_signed_zero: "fl_add (Fin x) (signed_zero negative) = np_round x"
  by (simp add: signed_zero_def)

lemmas np_round_small = np_round_0 np_round_1 np_round_2 np_round_half
  np_round_to_zero np_round_to_1 np_round_to_2 np_round_to_half fl_add_signed_zero

lemma shd_const_tape: "shd (const_tape x) = x"
  by (simp add: const_tape_def)

lemma stl_const_tape: "stl (const_tape x) = const_tape x"
  by (simp add: const_tape_def)

lemmas const_tape_simps = shd_const_tape stl_const_tape

lemma fl_eq_zero: "fl_eq v (Fin 0) \<longleftrightarrow> v = Fin 0 \<or> v = NegZero"
  by (cases v) auto

lemma dict_get_zero: "fl_eq (dict_get kw k (Fin 0)) (Fin 0) \<longleftrightarrow> sigma_is_zero kw k"
  by (simp add: dict_get_def sigma_is_zero_def fl_eq_zero split: option.splits)

subsection \<open>The three convergence cases of \<^verbatim>\<open>draw_lens\<close>\<close>

lemma draw_lens_pdf:
  "draw_kappa L \<Longrightarrow> kappa_dist L = Some s \<Longrightarrow>
   draw_lens L lm lms ke kes gp li lis g =
     (case lambda_draw L lm lms li lis g of
        Inl e \<Rightarrow> Inl e
      | Inr (lam, g1) \<Rightarrow> Inr ((lam, fst (s g1), gp), snd (s g1)))"
  by (simp add: draw_lens_def lambda_draw_def split: sum.splits prod.splits)

lemma draw_lens_bias:
  "\<not> draw_kappa L \<Longrightarrow> kappa_ext_bias L \<Longrightarrow>
   draw_lens L lm lms ke kes gp li lis g =
     (case lambda_draw L lm lms li lis g of
        Inl e \<Rightarrow> Inl e
      | Inr (lam, g1) \<Rightarrow>
          (case np_random_normal ke kes g1 of
             Inl e \<Rightarrow> Inl e
           | Inr (k, g2) \<Rightarrow> Inr ((lam, k, gp), g2)))"
  by (simp add: draw_lens_def lambda_draw_def split: sum.splits prod.splits)

lemma draw_lens_zero:
  "\<not> draw_kappa L \<Longrightarrow> \<not> kappa_ext_bias L \<Longrightarrow>
   draw_lens L lm lms ke kes gp li lis g =
     (case lambda_draw L lm lms li lis g of
        Inl e \<Rightarrow> Inl e
      | Inr (lam, g1) \<Rightarrow> Inr ((lam, Fin 0, gp), g1))"
  by (simp add: draw_lens_def lambda_draw_def split: sum.splits prod.splits)

lemma draw_lens_no_pdf:
  "\<not> draw_kappa L \<Longrightarrow>
   draw_lens L lm lms ke kes gp li lis g =
     (case lambda_draw L lm lms li lis g of
        Inl e \<Rightarrow> Inl e
      | Inr (lam, g1) \<Rightarrow>
          if kappa_ext_bias L then
            (case np_random_normal ke kes g1 of
               Inl e \<Rightarrow> Inl e
             | Inr (k, g2) \<Rightarrow> Inr ((lam, k, gp), g2))
          else Inr ((lam, Fin 0, gp), g1))"
  by (simp add: draw_lens_def lambda_draw_def split: sum.splits prod.splits)

lemma init_one_sided:
  "(kappa_pdf = None) \<noteq> (kappa_bin_edges = None) \<Longrightarrow>
   LensLikelihood_init PDFSampling zl zs n bias kappa_pdf kappa_bin_edges mst =
     Inr \<lparr>z_lens = zl, z_source = zs, num_distribution_draws = n, kappa_ext_bias = bias,
          mst_ifu = mst, draw_kappa = False, kappa_dist = None\<rparr>"
  by (cases kappa_pdf; cases kappa_bin_edges) (simp_all add: LensLikelihood_init_def)

lemma ex_normal_1_0: "np_random_normal (Fin 1) (Fin 0) (x ## g) = Inr (Fin 1, g)"
  by (simp add: np_random_normal_def np_round_small)

lemma ex_normal_2_1: "np_random_normal (Fin 1) (Fin 1) (1 ## g) = Inr (Fin 2, g)"
  by (simp add: np_random_normal_def np_round_small)

subsection \<open>The Monte Carlo loop as a sum over the draws\<close>

lemma mc_loop_logls:
  "mc_loop B L ddt dd kwl kwk sv n acc g =
     (case mc_logls B L ddt dd kwl kwk sv n g of
        Inl e \<Rightarrow> Inl e
      | Inr (ls, g') \<Rightarrow> Inr (foldl fl_add acc (filter accepted (map np_exp ls)), g'))"
  by (induction n arbitrary: acc g) (auto simp: accepted_def Let_def split: sum.splits prod.splits)

lemma mc_logls_length:
  "mc_logls B L ddt dd kwl kwk sv n g = Inr (ls, g') \<Longrightarrow> length ls = n"
  by (induction n arbitrary: g ls) (auto split: sum.splits prod.splits)

lemma monte_carlo_path_estimate:
  "monte_carlo_path B L ddt dd kwl kwk sv g =
     (case mc_logls B L ddt dd kwl kwk sv (nat (num_distribution_draws L)) g of
        Inl e \<Rightarrow> Inl e
      | Inr (ls, g') \<Rightarrow> Inr (mc_estimate (num_distribution_draws L) ls, g'))"
  by (simp add: monte_carlo_path_def mc_loop_logls mc_estimate_def mc_sum_def split: sum.splits prod.splits)

lemma hyper_param_likelihood_mc:
  "\<not> check_dist L kwl (snd (dict_pop kwk ''sigma_v_sys_error'')) \<Longrightarrow>
   fst (hyper_param_likelihood B L ddt dd kwl kwk g) =
     monte_carlo_path B L ddt dd kwl (snd (dict_pop kwk ''sigma_v_sys_error''))
       (fst (dict_pop kwk ''sigma_v_sys_error'')) g"
  by (cases "dict_pop kwk ''sigma_v_sys_error''") (simp add: hyper_param_likelihood_def)

lemma hyper_param_likelihood_sharp:
  "check_dist L kwl (snd (dict_pop kwk ''sigma_v_sys_error'')) \<Longrightarrow>
   fst (hyper_param_likelihood B L ddt dd kwl kwk g) =
     sharp_path B L ddt dd kwl (snd (dict_pop kwk ''sigma_v_sys_error''))
       (fst (dict_pop kwk ''sigma_v_sys_error'')) g"
  by (cases "dict_pop kwk ''sigma_v_sys_error''") (simp add: hyper_param_likelihood_def)

lemma mc_sum_rejected: "\<forall>l \<in> set ls. \<not> accepted (np_exp l) \<Longrightarrow> mc_sum ls = Fin 0"
proof -
  assume "\<forall>l \<in> set ls. \<not> accepted (np_exp l)"
  then have "filter accepted (map np_exp ls) = []"
    by (induction ls) auto
  then show ?thesis by (simp add: mc_sum_def)
qed

lemma fl_le_zero_zero: "fl_le (Fin 0) (Fin 0)"
  by (simp add: fl_le_def)

lemma not_accepted_exp_ninf: "\<not> accepted (np_exp NInf)"
  by (simp add: accepted_def)

subsection \<open>One draw of the loop and the sharp branch\<close>

lemma mc_draw_eq_sharp_path:
  "mc_draw B L ddt dd kwl kwk sv g = sharp_path B L ddt dd kwl kwk sv g"
  by (simp add: mc_draw_def sharp_path_def Let_def split: sum.splits prod.splits)

lemma draw_lens_kwargs_draws_update:
  "draw_lens_kwargs (L\<lparr>num_distribution_draws := n\<rparr>) kw g = draw_lens_kwargs L kw g"
  by (simp add: draw_lens_kwargs_def draw_lens_def split: sum.splits prod.splits)

lemma sharp_path_draws_update:
  "sharp_path B (L\<lparr>num_distribution_draws := n\<rparr>) ddt dd kwl kwk sv g = sharp_path B L ddt dd kwl kwk sv g"
  by (simp add: sharp_path_def draw_lens_kwargs_draws_update)


lemma monte_carlo_path_single:
  "monte_carlo_path B (L\<lparr>num_distribution_draws := 1\<rparr>) ddt dd kwl kwk sv g =
     (case sharp_path B L ddt dd kwl kwk sv g of
        Inl e \<Rightarrow> Inl e
      | Inr (v, g') \<Rightarrow> Inr (mc_estimate 1 [v], g'))"
  by (simp add: monte_carlo_path_estimate mc_draw_eq_sharp_path sharp_path_draws_update
      split: sum.splits prod.splits)

subsection \<open>What the inherited methods are given\<close>






subsection \<open>Runs of the concrete objects\<close>

lemma ex_mc_draw_0:
  "mc_draw (ex_inherited good bad) (ex_lens n False False) (Fin 1) (Fin 1) [(''lambda_mst_sigma'', Fin 1)] [] None (0 ## g)
     = Inr (good, g)"
  by (simp add: mc_draw_def draw_lens_kwargs_def draw_lens_params_def draw_lens_def dict_get_def
       ex_lens_def ex_inherited_def np_random_normal_def np_round_small)

lemma ex_mc_draw_1:
  "mc_draw (ex_inherited good bad) (ex_lens n False False) (Fin 1) (Fin 1) [(''lambda_mst_sigma'', Fin 1)] [] None (const_tape 1)
     = Inr (bad, const_tape 1)"
  by (simp add: mc_draw_def draw_lens_kwargs_def draw_lens_params_def draw_lens_def dict_get_def
       ex_lens_def ex_inherited_def np_random_normal_def np_round_small const_tape_simps)

lemma ex_mc_logls_1:
  "mc_logls (ex_inherited good bad) (ex_lens n False False) (Fin 1) (Fin 1) [(''lambda_mst_sigma'', Fin 1)] [] None k (const_tape 1)
     = Inr (replicate k bad, const_tape 1)"
  by (induction k) (simp_all add: ex_mc_draw_1)

lemma ex_mc_logls:
  "mc_logls (ex_inherited good bad) (ex_lens n False False) (Fin 1) (Fin 1) [(''lambda_mst_sigma'', Fin 1)] [] None (Suc k)
     (0 ## const_tape 1) = Inr (good # replicate k bad, const_tape 1)"
  by (simp add: ex_mc_draw_0 ex_mc_logls_1)

lemma ex_not_sharp:
  "\<not> check_dist (ex_lens n False False) [(''lambda_mst_sigma'', Fin 1)] (snd (dict_pop [] ''sigma_v_sys_error''))"
  by (simp add: check_dist_def dict_get_def dict_pop_def)

lemma ex_pop_empty: "dict_pop [] k = (None, [])"
  by (simp add: dict_pop_def)

lemma min_subnormal_pos: "0 < dbl_min_subnormal"
  by (simp add: dbl_min_subnormal_def)

lemma exp_ln_min_subnormal: "exp (ln dbl_min_subnormal) = dbl_min_subnormal"
  by (rule exp_ln) (rule min_subnormal_pos)

lemma np_round_min_subnormal: "np_round dbl_min_subnormal = Fin dbl_min_subnormal"
  unfolding dbl_min_subnormal_def by (rule np_round_in_range) simp_all

lemma np_round_min_subnormal_quarter: "np_round_to False (dbl_min_subnormal / 4) = Fin 0"
  by (simp add: np_round_to_def dbl_overflow_def dbl_underflow_def dbl_min_subnormal_def)

lemma ex_tiny_sum:
  "mc_sum [Fin (ln dbl_min_subnormal), NInf, NInf, NInf] = Fin dbl_min_subnormal"
  by (simp add: mc_sum_def accepted_def exp_ln_min_subnormal np_round_min_subnormal min_subnormal_pos)

lemma ex_lens_draws: "num_distribution_draws (ex_lens n bias mst) = n"
  by (simp add: ex_lens_def)

lemma ex_hyper_param_likelihood:
  "fst (hyper_param_likelihood (ex_inherited good bad) (ex_lens (1 + int k) False False) (Fin 1) (Fin 1)
          [(''lambda_mst_sigma'', Fin 1)] [] (0 ## const_tape 1))
     = Inr (mc_estimate (1 + int k) (good # replicate k bad), const_tape 1)"
proof -
  have "nat (1 + int k) = Suc k" by simp
  then show ?thesis
    by (simp add: hyper_param_likelihood_mc [OF ex_not_sharp] monte_carlo_path_estimate ex_pop_empty
        ex_lens_draws ex_mc_logls del: mc_logls.simps)
qed



lemma ex_lens_draws_update: "(ex_lens n bias mst)\<lparr>num_distribution_draws := k\<rparr> = ex_lens k bias mst"
  by (simp add: ex_lens_def)





text \<open>A spread of negative zero is sharp and is refused by the normal draw.\<close>

lemma ex_negative_zero_spread:
  "check_dist (ex_lens 1 False False) [(''lambda_mst_sigma'', NegZero)] (snd (dict_pop [] ''sigma_v_sys_error'')) \<and>
   fst (hyper_param_likelihood (ex_inherited good bad) (ex_lens 1 False False) (Fin 1) (Fin 1)
          [(''lambda_mst_sigma'', NegZero)] [] g) = Inl ValueError \<and>
   monte_carlo_path (ex_inherited good bad) (ex_lens 1 False False) (Fin 1) (Fin 1)
          [(''lambda_mst_sigma'', NegZero)] [] None g = Inl ValueError"
proof -
  have sharp: "check_dist (ex_lens 1 False False) [(''lambda_mst_sigma'', NegZero)]
      (snd (dict_pop [] ''sigma_v_sys_error''))"
    by (simp add: check_dist_def dict_get_def dict_pop_def ex_lens_def)
  have refused: "sharp_path (ex_inherited good bad) (ex_lens 1 False False) (Fin 1) (Fin 1)
      [(''lambda_mst_sigma'', NegZero)] [] None g = Inl ValueError"
    by (simp add: sharp_path_def draw_lens_kwargs_def draw_lens_params_def draw_lens_def dict_get_def
        ex_lens_def np_random_normal_def)
  have "monte_carlo_path (ex_inherited good bad) ((ex_lens 1 False False)\<lparr>num_distribution_draws := 1\<rparr>)
      (Fin 1) (Fin 1) [(''lambda_mst_sigma'', NegZero)] [] None g = Inl ValueError"
    by (simp add: monte_carlo_path_single refused)
  then show ?thesis
    using sharp by (simp add: hyper_param_likelihood_sharp [OF sharp] ex_pop_empty refused ex_lens_draws_update)
qed

section \<open>The claims\<close>

subsection \<open>The sharp-distribution test\<close>

text \<open>
  Claim C2. \<^verbatim>\<open>check_dist\<close> returns true if and only if the four spreads
  \<^verbatim>\<open>lambda_mst_sigma\<close>, \<^verbatim>\<open>kappa_ext_sigma\<close> (read from the lens keywords),
  \<^verbatim>\<open>a_ani_sigma\<close> and \<^verbatim>\<open>beta_inf_sigma\<close> (read from the kinematic keywords) are all
  exactly zero, an absent key counting as zero, and the lens draws no convergence from a
  PDF. One nonzero spread (NaN included), or a configured PDF, makes it false.
\<close>

theorem check_dist_iff_all_sigmas_zero:
  "check_dist L kwargs_lens kwargs_kin \<longleftrightarrow>
     sigma_is_zero kwargs_lens ''lambda_mst_sigma'' \<and> sigma_is_zero kwargs_lens ''kappa_ext_sigma'' \<and>
     sigma_is_zero kwargs_kin ''a_ani_sigma'' \<and> sigma_is_zero kwargs_kin ''beta_inf_sigma'' \<and>
     \<not> draw_kappa L"
  unfolding check_dist_def Let_def dict_get_zero by auto

theorem check_dist_iff_all_sigmas_zero_witness:
  "check_dist (ex_lens 50 False False) [(''lambda_mst'', Fin 1), (''lambda_mst_sigma'', Fin 0)] [(''a_ani'', Fin 1)] \<and>
   check_dist (ex_lens 50 False False) [(''lambda_mst_sigma'', NegZero)] [] \<and>
   \<not> check_dist (ex_lens 50 False False) [(''kappa_ext_sigma'', NaN)] [] \<and>
   \<not> check_dist (ex_lens 50 False False) [] [(''beta_inf_sigma'', Fin (1 / 2))] \<and>
   \<not> check_dist ex_pdf_lens [] []"
  using check_dist_iff_all_sigmas_zero [of "ex_lens 50 False False"
      "[(''lambda_mst'', Fin 1), (''lambda_mst_sigma'', Fin 0)]" "[(''a_ani'', Fin 1)]"]
    check_dist_iff_all_sigmas_zero [of "ex_lens 50 False False" "[(''lambda_mst_sigma'', NegZero)]" "[]"]
    check_dist_iff_all_sigmas_zero [of "ex_lens 50 False False" "[(''kappa_ext_sigma'', NaN)]" "[]"]
    check_dist_iff_all_sigmas_zero [of "ex_lens 50 False False" "[]" "[(''beta_inf_sigma'', Fin (1 / 2))]"]
    check_dist_iff_all_sigmas_zero [of ex_pdf_lens "[]" "[]"]
  by (simp add: sigma_is_zero_def ex_lens_def ex_pdf_lens_def)

subsection \<open>The draws of \<^verbatim>\<open>draw_lens\<close>\<close>

text \<open>
  Claim C5. The convergence draw of \<^verbatim>\<open>draw_lens\<close> follows a strict precedence. With a
  convergence PDF configured, the convergence is what the sampler draws from the random
  source left by the draw of the mass-sheet factor, and the result is the same for every
  \<^verbatim>\<open>kappa_ext\<close> and \<^verbatim>\<open>kappa_ext_sigma\<close>. Without a PDF and with \<^verbatim>\<open>kappa_ext_bias\<close>
  enabled, it is the normal draw with mean \<^verbatim>\<open>kappa_ext\<close> and standard deviation
  \<^verbatim>\<open>kappa_ext_sigma\<close>. Otherwise it is 0 and the random source is not read for it.
\<close>

theorem draw_lens_kappa_precedence:
  "(draw_kappa L \<and> kappa_dist L = Some s \<longrightarrow>
      draw_lens L lm lms ke kes gp li lis g =
        (case lambda_draw L lm lms li lis g of
           Inl e \<Rightarrow> Inl e
         | Inr (lam, g1) \<Rightarrow> Inr ((lam, fst (s g1), gp), snd (s g1))) \<and>
      draw_lens L lm lms ke kes gp li lis g = draw_lens L lm lms ke' kes' gp li lis g) \<and>
   (\<not> draw_kappa L \<and> kappa_ext_bias L \<longrightarrow>
      draw_lens L lm lms ke kes gp li lis g =
        (case lambda_draw L lm lms li lis g of
           Inl e \<Rightarrow> Inl e
         | Inr (lam, g1) \<Rightarrow>
             (case np_random_normal ke kes g1 of
                Inl e \<Rightarrow> Inl e
              | Inr (k, g2) \<Rightarrow> Inr ((lam, k, gp), g2)))) \<and>
   (\<not> draw_kappa L \<and> \<not> kappa_ext_bias L \<longrightarrow>
      draw_lens L lm lms ke kes gp li lis g =
        (case lambda_draw L lm lms li lis g of
           Inl e \<Rightarrow> Inl e
         | Inr (lam, g1) \<Rightarrow> Inr ((lam, Fin 0, gp), g1)))"
  by (simp add: draw_lens_pdf draw_lens_bias draw_lens_zero)

theorem draw_lens_kappa_precedence_witness:
  "draw_lens ex_pdf_lens (Fin 1) (Fin 0) (Fin 1) (Fin 1) (Fin 1) (Fin 1) (Fin 0) (0 ## 2 ## const_tape 1)
     = Inr ((Fin 1, Fin 2, Fin 1), const_tape 1) \<and>
   draw_lens ex_pdf_lens (Fin 1) (Fin 0) (Fin 7) NInf (Fin 1) (Fin 1) (Fin 0) (0 ## 2 ## const_tape 1)
     = Inr ((Fin 1, Fin 2, Fin 1), const_tape 1) \<and>
   draw_lens (ex_lens 1 True False) (Fin 1) (Fin 0) (Fin 1) (Fin 1) (Fin 1) (Fin 1) (Fin 0) (0 ## 1 ## const_tape 1)
     = Inr ((Fin 1, Fin 2, Fin 1), const_tape 1) \<and>
   draw_lens (ex_lens 1 False False) (Fin 1) (Fin 0) (Fin 1) (Fin 1) (Fin 1) (Fin 1) (Fin 0) (0 ## 1 ## const_tape 1)
     = Inr ((Fin 1, Fin 0, Fin 1), 1 ## const_tape 1)"
proof -
  have pdf: "draw_kappa ex_pdf_lens \<and> kappa_dist ex_pdf_lens = Some ex_sampler"
    by (simp add: ex_pdf_lens_def ex_lens_def)
  have bias: "\<not> draw_kappa (ex_lens 1 True False) \<and> kappa_ext_bias (ex_lens 1 True False)"
    by (simp add: ex_lens_def)
  have none: "\<not> draw_kappa (ex_lens 1 False False) \<and> \<not> kappa_ext_bias (ex_lens 1 False False)"
    by (simp add: ex_lens_def)
  have lam1: "lambda_draw ex_pdf_lens (Fin 1) (Fin 0) (Fin 1) (Fin 0) (0 ## 2 ## const_tape 1) = Inr (Fin 1, 2 ## const_tape 1)"
    and lam2: "lambda_draw (ex_lens 1 b False) (Fin 1) (Fin 0) (Fin 1) (Fin 0) (0 ## 1 ## const_tape 1) = Inr (Fin 1, 1 ## const_tape 1)" for b
    by (simp_all add: lambda_draw_def ex_pdf_lens_def ex_lens_def ex_normal_1_0)
  show ?thesis
    using pdf bias none
      draw_lens_kappa_precedence [of ex_pdf_lens ex_sampler "Fin 1" "Fin 0" "Fin 1" "Fin 1" "Fin 1" "Fin 1" "Fin 0"
        "0 ## 2 ## const_tape 1" "Fin 7" NInf]
      draw_lens_kappa_precedence [of "ex_lens 1 True False" ex_sampler "Fin 1" "Fin 0" "Fin 1" "Fin 1" "Fin 1" "Fin 1" "Fin 0"
        "0 ## 1 ## const_tape 1" "Fin 7" NInf]
      draw_lens_kappa_precedence [of "ex_lens 1 False False" ex_sampler "Fin 1" "Fin 0" "Fin 1" "Fin 1" "Fin 1" "Fin 1" "Fin 0"
        "0 ## 1 ## const_tape 1" "Fin 7" NInf]
    by (auto simp: lam1 lam2 ex_sampler_def ex_normal_2_1)
qed

text \<open>
  Claim C6. On a lens with \<^verbatim>\<open>mst_ifu\<close> set, the mass-sheet factor that \<^verbatim>\<open>draw_lens\<close>
  returns is the normal draw with mean \<^verbatim>\<open>lambda_ifu\<close> and standard deviation
  \<^verbatim>\<open>lambda_ifu_sigma\<close> (and its refusal of a negative spread is the refusal of the call),
  and two calls that differ only in \<^verbatim>\<open>lambda_mst\<close> and \<^verbatim>\<open>lambda_mst_sigma\<close>, from the
  same random source, give the same outcome.
\<close>

theorem draw_lens_mst_ifu_ignores_lambda_mst:
  "mst_ifu L \<Longrightarrow>
     draw_lens L lm lms ke kes gp li lis g = draw_lens L lm' lms' ke kes gp li lis g \<and>
     (\<forall>e. np_random_normal li lis g = Inl e \<longrightarrow> draw_lens L lm lms ke kes gp li lis g = Inl e) \<and>
     (\<forall>lam k gp' g2. draw_lens L lm lms ke kes gp li lis g = Inr ((lam, k, gp'), g2) \<longrightarrow>
        (\<exists>g1. np_random_normal li lis g = Inr (lam, g1)) \<and> gp' = gp)"
  by (auto simp: draw_lens_def split: sum.splits prod.splits option.splits if_splits)

theorem draw_lens_mst_ifu_ignores_lambda_mst_witness:
  "mst_ifu (ex_lens 1 False True) \<and>
   draw_lens (ex_lens 1 False True) (Fin 5) (Fin 3) (Fin 0) (Fin 0) (Fin 1) (Fin 1) (Fin 1) (1 ## const_tape 0)
     = Inr ((Fin 2, Fin 0, Fin 1), const_tape 0) \<and>
   draw_lens (ex_lens 1 False True) (Fin 1) (Fin 0) (Fin 0) (Fin 0) (Fin 1) (Fin 1) (Fin 1) (1 ## const_tape 0)
     = Inr ((Fin 2, Fin 0, Fin 1), const_tape 0)"
proof -
  have h: "mst_ifu (ex_lens 1 False True)" by (simp add: ex_lens_def)
  have d: "draw_lens (ex_lens 1 False True) (Fin 1) (Fin 0) (Fin 0) (Fin 0) (Fin 1) (Fin 1) (Fin 1) (1 ## const_tape 0)
     = Inr ((Fin 2, Fin 0, Fin 1), const_tape 0)"
    by (simp add: draw_lens_def ex_lens_def ex_normal_2_1)
  show ?thesis
    using h d draw_lens_mst_ifu_ignores_lambda_mst [OF h, of "Fin 5" "Fin 3" "Fin 0" "Fin 0" "Fin 1" "Fin 1" "Fin 1"
        "1 ## const_tape 0" "Fin 1" "Fin 0"]
    by simp
qed

subsection \<open>The distances\<close>

text \<open>
  Claim C7. \<^verbatim>\<open>angular_diameter_distances\<close> evaluates the angular diameter distance of
  the cosmology at the lens redshift, at the source redshift and between the two, and
  returns \<open>ddt = (1 + z_lens) * D(z_lens) * D(z_source) / D(z_lens, z_source)\<close>, computed
  from left to right, and \<open>dd = D(z_lens)\<close>.
\<close>

theorem angular_diameter_distances_formula:
  "angular_diameter_distances L cosmo =
     (fl_div (fl_mul (fl_mul (fl_add (Fin 1) (z_lens L)) (angular_diameter_distance cosmo (z_lens L)))
                (angular_diameter_distance cosmo (z_source L)))
        (angular_diameter_distance_z1z2 cosmo (z_lens L) (z_source L)),
      angular_diameter_distance cosmo (z_lens L))"
  by (simp add: angular_diameter_distances_def Let_def)

theorem angular_diameter_distances_formula_witness:
  "angular_diameter_distances (ex_lens 50 False False) ex_cosmology = (Fin (1 / 3), Fin (1 / 3))"
proof -
  have r: "np_round (3 / 2) = Fin (3 / 2)" "np_round 3 = Fin 3"
    "np_round_to False (1 / 3) = Fin (1 / 3)" "np_round_to False (2 / 3) = Fin (2 / 3)"
    by (rule np_round_in_range np_round_to_in_range; simp)+
  show ?thesis
    using angular_diameter_distances_formula [of "ex_lens 50 False False" ex_cosmology]
    by (simp add: ex_lens_def ex_cosmology_def r np_round_small)
qed

subsection \<open>The constructor\<close>

text \<open>
  Claim C10. When exactly one of \<^verbatim>\<open>kappa_pdf\<close> and \<^verbatim>\<open>kappa_bin_edges\<close> is given, the
  constructor raises nothing (the sampler's constructor is not even called) and builds a
  lens with PDF sampling disabled and no sampler; on that lens the convergence draw is
  the normal draw when \<^verbatim>\<open>kappa_ext_bias\<close> is set and 0 otherwise.
\<close>

theorem one_sided_pdf_disables_sampler:
  assumes "(kappa_pdf = None) \<noteq> (kappa_bin_edges = None)"
  shows "\<exists>L. LensLikelihood_init PDFSampling zl zs n bias kappa_pdf kappa_bin_edges mst = Inr L \<and>
     \<not> draw_kappa L \<and> kappa_dist L = None \<and> kappa_ext_bias L = bias \<and>
     draw_lens L lm lms ke kes gp li lis g =
        (case lambda_draw L lm lms li lis g of
           Inl e \<Rightarrow> Inl e
         | Inr (lam, g1) \<Rightarrow>
             if bias then
               (case np_random_normal ke kes g1 of
                  Inl e \<Rightarrow> Inl e
                | Inr (k, g2) \<Rightarrow> Inr ((lam, k, gp), g2))
             else Inr ((lam, Fin 0, gp), g1))"
proof -
  let ?L = "\<lparr>z_lens = zl, z_source = zs, num_distribution_draws = n, kappa_ext_bias = bias,
          mst_ifu = mst, draw_kappa = False, kappa_dist = None\<rparr>"
  have "LensLikelihood_init PDFSampling zl zs n bias kappa_pdf kappa_bin_edges mst = Inr ?L"
    using assms by (rule init_one_sided)
  moreover have "\<not> draw_kappa ?L" "kappa_dist ?L = None" "kappa_ext_bias ?L = bias"
    by simp_all
  moreover have "draw_lens ?L lm lms ke kes gp li lis g =
        (case lambda_draw ?L lm lms li lis g of
           Inl e \<Rightarrow> Inl e
         | Inr (lam, g1) \<Rightarrow>
             if bias then
               (case np_random_normal ke kes g1 of
                  Inl e \<Rightarrow> Inl e
                | Inr (k, g2) \<Rightarrow> Inr ((lam, k, gp), g2))
             else Inr ((lam, Fin 0, gp), g1))"
    by (subst draw_lens_no_pdf) (simp_all split: sum.splits)
  ultimately show ?thesis by blast
qed

theorem one_sided_pdf_disables_sampler_witness:
  "(Some [Fin 1] = None) \<noteq> ((None :: npfloat list option) = None) \<and>
   (\<exists>L. LensLikelihood_init (\<lambda>edges pdf. Inl ValueError) (Fin (1 / 2)) (Fin 2) 1 True (Some [Fin 1]) None False = Inr L \<and>
      \<not> draw_kappa L \<and> kappa_dist L = None \<and> kappa_ext_bias L = True \<and>
      draw_lens L (Fin 1) (Fin 0) (Fin 1) (Fin 1) (Fin 1) (Fin 1) (Fin 0) (0 ## 1 ## const_tape 1)
        = Inr ((Fin 1, Fin 2, Fin 1), const_tape 1))"
proof -
  have h: "(Some [Fin 1] = None) \<noteq> ((None :: npfloat list option) = None)" by simp
  have lam: "lambda_draw L (Fin 1) (Fin 0) (Fin 1) (Fin 0) (0 ## 1 ## const_tape 1) = Inr (Fin 1, 1 ## const_tape 1)" for L
    by (simp add: lambda_draw_def ex_normal_1_0)
  show ?thesis
    using h one_sided_pdf_disables_sampler [OF h, of "\<lambda>edges pdf. Inl ValueError" "Fin (1 / 2)" "Fin 2" 1 True False
        "Fin 1" "Fin 0" "Fin 1" "Fin 1" "Fin 1" "Fin 1" "Fin 0" "0 ## 1 ## const_tape 1"]
    by (simp add: lam ex_normal_2_1)
qed

subsection \<open>The Monte Carlo branch\<close>

text \<open>
  Claim C1. When the keywords are not sharp, \<^verbatim>\<open>hyper_param_likelihood\<close> runs the loop
  body exactly \<open>N = num_distribution_draws\<close> times (no time for a negative \<open>N\<close>): the
  per-draw log-likelihoods form a list of that length. Each is exponentiated and joins
  the running sum, in the order of the draws, only if its exponential is finite and
  strictly positive. A sum that is not positive gives negative infinity; a positive sum
  gives \<open>log (sum / N)\<close>, the divisor being the configured draw count and not the number
  of accepted draws. An error raised in a draw is the outcome of the call.
\<close>

theorem monte_carlo_averages_over_all_draws:
  assumes "\<not> check_dist L kwl (snd (dict_pop kwk ''sigma_v_sys_error''))"
  shows "fst (hyper_param_likelihood B L ddt dd kwl kwk g) =
     (case mc_logls B L ddt dd kwl (snd (dict_pop kwk ''sigma_v_sys_error''))
             (fst (dict_pop kwk ''sigma_v_sys_error'')) (nat (num_distribution_draws L)) g of
        Inl e \<Rightarrow> Inl e
      | Inr (logls, g') \<Rightarrow>
          Inr (if fl_le (foldl fl_add (Fin 0) (filter accepted (map np_exp logls))) (Fin 0) then NInf
               else np_log (fl_div (foldl fl_add (Fin 0) (filter accepted (map np_exp logls)))
                      (Fin (of_int (num_distribution_draws L)))), g')) \<and>
     (\<forall>logls g'. mc_logls B L ddt dd kwl (snd (dict_pop kwk ''sigma_v_sys_error''))
             (fst (dict_pop kwk ''sigma_v_sys_error'')) (nat (num_distribution_draws L)) g = Inr (logls, g')
         \<longrightarrow> length logls = nat (num_distribution_draws L))"
  by (auto simp: hyper_param_likelihood_mc [OF assms] monte_carlo_path_estimate mc_estimate_def mc_sum_def
      mc_logls_length split: sum.splits)

theorem monte_carlo_averages_over_all_draws_witness:
  "\<not> check_dist (ex_lens 2 False False) [(''lambda_mst_sigma'', Fin 1)] (snd (dict_pop [] ''sigma_v_sys_error'')) \<and>
   mc_logls (ex_inherited (Fin 0) NInf) (ex_lens 2 False False) (Fin 1) (Fin 1) [(''lambda_mst_sigma'', Fin 1)] [] None 2
     (0 ## const_tape 1) = Inr ([Fin 0, NInf], const_tape 1) \<and>
   fst (hyper_param_likelihood (ex_inherited (Fin 0) NInf) (ex_lens 2 False False) (Fin 1) (Fin 1)
          [(''lambda_mst_sigma'', Fin 1)] [] (0 ## const_tape 1))
     = Inr (np_log (Fin (1 / 2)), const_tape 1)"
proof -
  have n: "nat (num_distribution_draws (ex_lens 2 False False)) = Suc (Suc 0)"
    and r: "real_of_int (num_distribution_draws (ex_lens 2 False False)) = 2"
    by (simp_all add: ex_lens_def)
  have two: "(2::nat) = Suc (Suc 0)" by simp
  have l: "mc_logls (ex_inherited (Fin 0) NInf) (ex_lens 2 False False) (Fin 1) (Fin 1) [(''lambda_mst_sigma'', Fin 1)] [] None
     (Suc (Suc 0)) (0 ## const_tape 1) = Inr ([Fin 0, NInf], const_tape 1)"
    using ex_mc_logls [where good = "Fin 0" and bad = NInf and n = 2 and k = "Suc 0"] by (simp del: mc_logls.simps)
  show ?thesis
    using ex_not_sharp [of 2]
      monte_carlo_averages_over_all_draws [OF ex_not_sharp, where n1 = 2 and B = "ex_inherited (Fin 0) NInf"
        and ddt = "Fin 1" and dd = "Fin 1" and g = "0 ## const_tape 1"]
    by (simp add: ex_pop_empty n r two l accepted_def np_round_small fl_le_def
          del: mc_logls.simps)
qed

text \<open>
  Claim C4, as amended. On the Monte Carlo branch the result is negative infinity whenever
  the accumulated sum is at most zero, in particular whenever every draw gives negative
  infinity or a value whose exponential is rejected; it is a value, not an error. When
  the sum is positive the result is \<open>log (sum / N)\<close>.
\<close>

theorem monte_carlo_neg_infinity_when_no_mass:
  assumes "\<not> check_dist L kwl (snd (dict_pop kwk ''sigma_v_sys_error''))"
    and "mc_logls B L ddt dd kwl (snd (dict_pop kwk ''sigma_v_sys_error''))
           (fst (dict_pop kwk ''sigma_v_sys_error'')) (nat (num_distribution_draws L)) g = Inr (logls, g')"
  shows "(fl_le (mc_sum logls) (Fin 0) \<longrightarrow>
            fst (hyper_param_likelihood B L ddt dd kwl kwk g) = Inr (NInf, g')) \<and>
         ((\<forall>l \<in> set logls. l = NInf \<or> \<not> accepted (np_exp l)) \<longrightarrow>
            fst (hyper_param_likelihood B L ddt dd kwl kwk g) = Inr (NInf, g')) \<and>
         (\<not> fl_le (mc_sum logls) (Fin 0) \<longrightarrow>
            fst (hyper_param_likelihood B L ddt dd kwl kwk g) =
              Inr (np_log (fl_div (mc_sum logls) (Fin (of_int (num_distribution_draws L)))), g'))"
proof -
  have run: "fst (hyper_param_likelihood B L ddt dd kwl kwk g) =
      Inr (mc_estimate (num_distribution_draws L) logls, g')"
    by (simp add: hyper_param_likelihood_mc [OF assms(1)] monte_carlo_path_estimate assms(2))
  have "mc_sum logls = Fin 0" if "\<forall>l \<in> set logls. l = NInf \<or> \<not> accepted (np_exp l)"
    using that not_accepted_exp_ninf by (intro mc_sum_rejected) auto
  then show ?thesis
    by (auto simp: run mc_estimate_def fl_le_zero_zero)
qed

theorem monte_carlo_neg_infinity_when_no_mass_witness:
  "mc_logls (ex_inherited NInf NInf) (ex_lens 2 False False) (Fin 1) (Fin 1) [(''lambda_mst_sigma'', Fin 1)] [] None 2
     (0 ## const_tape 1) = Inr ([NInf, NInf], const_tape 1) \<and>
   fl_le (mc_sum [NInf, NInf]) (Fin 0) \<and>
   fst (hyper_param_likelihood (ex_inherited NInf NInf) (ex_lens 2 False False) (Fin 1) (Fin 1)
          [(''lambda_mst_sigma'', Fin 1)] [] (0 ## const_tape 1))
     = Inr (NInf, const_tape 1)"
proof -
  have s: "fl_le (mc_sum [NInf, NInf]) (Fin 0)"
    by (simp add: mc_sum_def accepted_def fl_le_def)
  have l2: "mc_logls (ex_inherited NInf NInf) (ex_lens 2 False False) (Fin 1) (Fin 1) [(''lambda_mst_sigma'', Fin 1)] [] None 2
     (0 ## const_tape 1) = Inr ([NInf, NInf], const_tape 1)"
    using ex_mc_logls [where good = NInf and bad = NInf and n = 2 and k = "Suc 0"]
    by (simp add: eval_nat_numeral del: mc_logls.simps)
  have l: "mc_logls (ex_inherited NInf NInf) (ex_lens 2 False False) (Fin 1) (Fin 1) [(''lambda_mst_sigma'', Fin 1)]
     (snd (dict_pop [] ''sigma_v_sys_error'')) (fst (dict_pop [] ''sigma_v_sys_error''))
     (nat (num_distribution_draws (ex_lens 2 False False))) (0 ## const_tape 1) = Inr ([NInf, NInf], const_tape 1)"
    using l2 by (simp add: ex_pop_empty ex_lens_draws del: mc_logls.simps)
  show ?thesis
    using s l2 monte_carlo_neg_infinity_when_no_mass [OF ex_not_sharp l]
    by (simp del: mc_logls.simps)
qed

text \<open>
  The converse fails: a positive sum can still give negative infinity. With four draws of
  which one has the least subnormal double as its likelihood (a log-likelihood near
  \<open>-744.44\<close>) and three are rejected, the sum is positive, its quotient by 4 rounds to
  zero, and the logarithm of zero is negative infinity.
\<close>

theorem monte_carlo_neg_infinity_positive_sum:
  "\<not> check_dist (ex_lens 4 False False) [(''lambda_mst_sigma'', Fin 1)] (snd (dict_pop [] ''sigma_v_sys_error'')) \<and>
   mc_logls (ex_inherited (Fin (ln dbl_min_subnormal)) NInf) (ex_lens 4 False False) (Fin 1) (Fin 1)
      [(''lambda_mst_sigma'', Fin 1)] [] None 4 (0 ## const_tape 1)
     = Inr ([Fin (ln dbl_min_subnormal), NInf, NInf, NInf], const_tape 1) \<and>
   \<not> fl_le (mc_sum [Fin (ln dbl_min_subnormal), NInf, NInf, NInf]) (Fin 0) \<and>
   fst (hyper_param_likelihood (ex_inherited (Fin (ln dbl_min_subnormal)) NInf) (ex_lens 4 False False) (Fin 1) (Fin 1)
          [(''lambda_mst_sigma'', Fin 1)] [] (0 ## const_tape 1))
     = Inr (NInf, const_tape 1)"
proof -
  have l: "mc_logls (ex_inherited (Fin (ln dbl_min_subnormal)) NInf) (ex_lens 4 False False) (Fin 1) (Fin 1)
      [(''lambda_mst_sigma'', Fin 1)] [] None 4 (0 ## const_tape 1)
     = Inr ([Fin (ln dbl_min_subnormal), NInf, NInf, NInf], const_tape 1)"
    using ex_mc_logls [where good = "Fin (ln dbl_min_subnormal)" and bad = NInf and n = 4 and k = "Suc (Suc (Suc 0))"]
    by (simp add: eval_nat_numeral del: mc_logls.simps)
  have pos: "\<not> fl_le (mc_sum [Fin (ln dbl_min_subnormal), NInf, NInf, NInf]) (Fin 0)"
    using min_subnormal_pos by (simp add: ex_tiny_sum fl_le_def)
  have "fst (hyper_param_likelihood (ex_inherited (Fin (ln dbl_min_subnormal)) NInf) (ex_lens 4 False False) (Fin 1) (Fin 1)
          [(''lambda_mst_sigma'', Fin 1)] [] (0 ## const_tape 1))
     = Inr (mc_estimate 4 [Fin (ln dbl_min_subnormal), NInf, NInf, NInf], const_tape 1)"
    using ex_hyper_param_likelihood [where good = "Fin (ln dbl_min_subnormal)" and bad = NInf and k = "Suc (Suc (Suc 0))"]
    by simp
  moreover have "mc_estimate 4 [Fin (ln dbl_min_subnormal), NInf, NInf, NInf] = NInf"
    using pos min_subnormal_pos by (simp add: mc_estimate_def ex_tiny_sum np_round_min_subnormal_quarter)
  ultimately show ?thesis
    using l pos ex_not_sharp [of 4] by simp
qed

subsection \<open>The sharp branch against a single Monte Carlo draw\<close>




subsection \<open>The systematic velocity-dispersion error\<close>



subsection \<open>A draw count that is not positive\<close>

text \<open>
  Claim C9. With a draw count that is zero or negative and keywords that are not sharp,
  \<^verbatim>\<open>hyper_param_likelihood\<close> returns negative infinity for every input, without
  reading the random source and without calling any inherited method: the loop body never
  runs and the sum stays 0. The constructor stores the draw count it is given, whatever
  its sign, and whether it raises does not depend on the draw count.
\<close>

theorem no_draws_gives_neg_infinity:
  "(num_distribution_draws L \<le> 0 \<and> \<not> check_dist L kwl (snd (dict_pop kwk ''sigma_v_sys_error'')) \<longrightarrow>
      fst (hyper_param_likelihood B L ddt dd kwl kwk g) = Inr (NInf, g)) \<and>
   (\<forall>L'. LensLikelihood_init PDFSampling zl zs n bias kappa_pdf kappa_bin_edges mst = Inr L' \<longrightarrow>
      num_distribution_draws L' = n) \<and>
   isl (LensLikelihood_init PDFSampling zl zs n bias kappa_pdf kappa_bin_edges mst) =
     isl (LensLikelihood_init PDFSampling zl zs n' bias kappa_pdf kappa_bin_edges mst)"
proof -
  have "nat (num_distribution_draws L) = 0" if "num_distribution_draws L \<le> 0"
    using that by simp
  then have "fst (hyper_param_likelihood B L ddt dd kwl kwk g) = Inr (NInf, g)"
    if "num_distribution_draws L \<le> 0" "\<not> check_dist L kwl (snd (dict_pop kwk ''sigma_v_sys_error''))"
    using that by (simp add: hyper_param_likelihood_mc monte_carlo_path_def fl_le_zero_zero)
  moreover have "\<forall>L'. LensLikelihood_init PDFSampling zl zs n bias kappa_pdf kappa_bin_edges mst = Inr L' \<longrightarrow>
      num_distribution_draws L' = n"
    by (auto simp: LensLikelihood_init_def split: option.splits sum.splits)
  moreover have "isl (LensLikelihood_init PDFSampling zl zs n bias kappa_pdf kappa_bin_edges mst) =
     isl (LensLikelihood_init PDFSampling zl zs n' bias kappa_pdf kappa_bin_edges mst)"
    by (auto simp: LensLikelihood_init_def split: option.splits sum.splits)
  ultimately show ?thesis by blast
qed

theorem no_draws_gives_neg_infinity_witness:
  "num_distribution_draws (ex_lens (- 3) False False) \<le> 0 \<and>
   \<not> check_dist (ex_lens (- 3) False False) [(''lambda_mst_sigma'', Fin 1)] (snd (dict_pop [] ''sigma_v_sys_error'')) \<and>
   fst (hyper_param_likelihood (ex_inherited (Fin 0) (Fin 0)) (ex_lens (- 3) False False) (Fin 1) (Fin 1)
          [(''lambda_mst_sigma'', Fin 1)] [] (const_tape 1)) = Inr (NInf, const_tape 1) \<and>
   LensLikelihood_init (\<lambda>edges pdf. Inl ValueError) (Fin (1 / 2)) (Fin 2) (- 3) False None None False
     = Inr (ex_lens (- 3) False False)"
proof -
  have i: "LensLikelihood_init (\<lambda>edges pdf. Inl ValueError) (Fin (1 / 2)) (Fin 2) (- 3) False None None False
     = Inr (ex_lens (- 3) False False)"
    by (simp add: LensLikelihood_init_def ex_lens_def)
  show ?thesis
    using i ex_not_sharp [of "- 3"]
      no_draws_gives_neg_infinity [where L = "ex_lens (- 3) False False" and kwl = "[(''lambda_mst_sigma'', Fin 1)]"
        and kwk = "[]" and B = "ex_inherited (Fin 0) (Fin 0)" and ddt = "Fin 1" and dd = "Fin 1"
        and g = "const_tape 1" and PDFSampling = "\<lambda>edges pdf. Inl ValueError" and zl = "Fin (1 / 2)"
        and zs = "Fin 2" and n = "- 3" and bias = False and kappa_pdf = None and kappa_bin_edges = None
        and mst = False and n' = 0]
    by (simp add: ex_lens_draws)
qed

end
